theory Spec2Isabelle
  imports Complex_Main
begin

section \<open>Python values, exceptions and the outside world\<close>

text \<open>
  The module \<^verbatim>\<open>agent/doctor_search_agent/agent.py\<close> is one tool function,
  \<^verbatim>\<open>find_doctors\<close>, with three helpers. It is dynamically typed: what the
  collaborators answer is whatever \<^verbatim>\<open>json()\<close> decodes, and the variables
  \<^verbatim>\<open>lat\<close> and \<^verbatim>\<open>lng\<close> hold first the arguments and later decoded JSON. The
  model therefore works on a datatype of Python values. A \<^verbatim>\<open>dict\<close> is an
  association list read with \<open>map_of\<close>. A string is the list of its UTF-8 bytes.
  A Python \<^verbatim>\<open>float\<close> is the real number that the double denotes (there is no NaN
  and no infinity); the operations on floats are not exact and are parameters of the
  model, see \<open>float_ops\<close>.
\<close>

datatype pyval =
    PNone
  | PBool bool
  | PInt int
  | PFloat real
  | PStr string
  | PList "pyval list"
  | PDict "(string \<times> pyval) list"

text \<open>The exceptions that the code can meet. \<open>RequestException\<close> is a failure of
  \<^verbatim>\<open>requests.get\<close> (connection, timeout), \<open>JSONDecodeError\<close> one of \<^verbatim>\<open>.json()\<close>.\<close>

datatype py_error =
    KeyError | IndexError | TypeError | AttributeError | ValueError | OverflowError
  | RequestException | JSONDecodeError

text \<open>What \<^verbatim>\<open>requests.get(...).json()\<close> does: it raises, or it returns a decoded value.\<close>

datatype response = Raises py_error | Returns pyval

text \<open>The \<^verbatim>\<open>params\<close> dictionary of the nearby search (source lines 100 to 105).\<close>

record places_params =
  location :: string
  radius :: int
  keyword :: string
  key :: string

text \<open>One outbound call. The trace of a run is the list of its calls in order.\<close>

datatype call =
    IpLookup
  | Geocode string string
  | NearbySearch places_params

text \<open>
  The arithmetic of doubles, as the interpreter and the C library give it. Each
  operation takes the real values of its arguments to the real value of its result:
  \<open>f_of_int\<close> converts an \<^verbatim>\<open>int\<close> (\<open>None\<close> when it is too large, where Python raises
  \<open>OverflowError\<close>); \<open>f_add\<close>, \<open>f_sub\<close>, \<open>f_mul\<close>, \<open>f_div\<close> are \<^verbatim>\<open>+\<close>, \<^verbatim>\<open>-\<close>, \<^verbatim>\<open>*\<close>,
  \<^verbatim>\<open>/\<close>; \<open>f_pow2\<close> is \<^verbatim>\<open>x ** 2\<close>; \<open>f_radians\<close>, \<open>f_sin\<close>, \<open>f_cos\<close>, \<open>f_sqrt\<close> and
  \<open>f_atan2\<close> are the functions of \<^verbatim>\<open>math\<close> (\<open>f_sqrt\<close> where the argument is not
  negative); \<open>f_round1\<close> is \<^verbatim>\<open>round(x, 1)\<close>. Nothing is assumed of them.
\<close>

record float_ops =
  f_of_int :: "int \<Rightarrow> real option"
  f_add :: "real \<Rightarrow> real \<Rightarrow> real"
  f_sub :: "real \<Rightarrow> real \<Rightarrow> real"
  f_mul :: "real \<Rightarrow> real \<Rightarrow> real"
  f_div :: "real \<Rightarrow> real \<Rightarrow> real"
  f_pow2 :: "real \<Rightarrow> real"
  f_radians :: "real \<Rightarrow> real"
  f_sin :: "real \<Rightarrow> real"
  f_cos :: "real \<Rightarrow> real"
  f_sqrt :: "real \<Rightarrow> real"
  f_atan2 :: "real \<Rightarrow> real \<Rightarrow> real"
  f_round1 :: "real \<Rightarrow> real"

text \<open>
  Everything outside the function: the module constant \<^verbatim>\<open>API_KEY\<close>, the three HTTP
  collaborators as functions of the request they receive, the float arithmetic, and
  \<open>repr\<close>, the text Python gives a float, a list or a dict inside an f-string (not
  modelled further).
\<close>

record env =
  API_KEY :: string
  ip_api :: response
  geocode_api :: "string \<Rightarrow> string \<Rightarrow> response"
  nearbysearch_api :: "places_params \<Rightarrow> response"
  fops :: float_ops
  repr :: "pyval \<Rightarrow> string"

text \<open>The value a call of the tool returns: the error dictionary or the text block.\<close>

datatype tool_result = ErrorDict string | Rendered string

text \<open>How the location block (source lines 79 to 95) ends: an exception leaves the
  function, the error dictionary is returned, or control goes on with a value.\<close>

datatype 'a flow = Raise py_error | Return tool_result | Go 'a

subsection \<open>Python primitives\<close>

text \<open>Truth value testing, as \<^verbatim>\<open>if x\<close>, \<^verbatim>\<open>not x\<close> and \<^verbatim>\<open>x and y\<close> use it.\<close>

fun truthy :: "pyval \<Rightarrow> bool" where
  "truthy PNone = False"
| "truthy (PBool b) = b"
| "truthy (PInt n) = (n \<noteq> 0)"
| "truthy (PFloat x) = (x \<noteq> 0)"
| "truthy (PStr s) = (s \<noteq> [])"
| "truthy (PList xs) = (xs \<noteq> [])"
| "truthy (PDict kvs) = (kvs \<noteq> [])"

text \<open>An optional argument as the value the variable holds.\<close>

fun opt_float :: "real option \<Rightarrow> pyval" where
  "opt_float None = PNone"
| "opt_float (Some x) = PFloat x"

fun opt_str :: "string option \<Rightarrow> pyval" where
  "opt_str None = PNone"
| "opt_str (Some s) = PStr s"

text \<open>\<^verbatim>\<open>x or default\<close> for an optional string.\<close>

fun or_else :: "string option \<Rightarrow> string \<Rightarrow> string" where
  "or_else None d = d"
| "or_else (Some s) d = (if s = [] then d else s)"

text \<open>Sequencing of steps that may raise.\<close>

fun bind :: "py_error + 'a \<Rightarrow> ('a \<Rightarrow> py_error + 'b) \<Rightarrow> py_error + 'b" where
  "bind (Inl e) f = Inl e"
| "bind (Inr x) f = f x"

text \<open>\<^verbatim>\<open>x.get(k, default)\<close>: only a dict has the method.\<close>

fun py_get :: "pyval \<Rightarrow> string \<Rightarrow> pyval \<Rightarrow> py_error + pyval" where
  "py_get (PDict kvs) k d = Inr (case map_of kvs k of None \<Rightarrow> d | Some v \<Rightarrow> v)"
| "py_get _ k d = Inl AttributeError"

text \<open>\<^verbatim>\<open>x[k]\<close> for a string key \<open>k\<close>.\<close>

fun subscript :: "pyval \<Rightarrow> string \<Rightarrow> py_error + pyval" where
  "subscript (PDict kvs) k = (case map_of kvs k of None \<Rightarrow> Inl KeyError | Some v \<Rightarrow> Inr v)"
| "subscript _ k = Inl TypeError"

text \<open>The characters of a string: the first byte of a character tells how many
  bytes it has in UTF-8.\<close>

definition utf8_width :: "char \<Rightarrow> nat" where
  "utf8_width c =
     (let n = (of_char c :: nat)
      in if n < 0x80 then 1 else if n < 0xE0 then 2 else if n < 0xF0 then 3 else 4)"

fun chars :: "string \<Rightarrow> string list" where
  "chars [] = []"
| "chars (c # s) = (c # take (utf8_width c - 1) s) # chars (drop (utf8_width c - 1) s)"

text \<open>\<^verbatim>\<open>x[0]\<close>. A decoded JSON object has string keys only, so the key \<open>0\<close> is
  missing from every dict.\<close>

fun subscript0 :: "pyval \<Rightarrow> py_error + pyval" where
  "subscript0 (PList xs) = (case xs of [] \<Rightarrow> Inl IndexError | x # _ \<Rightarrow> Inr x)"
| "subscript0 (PStr s) = (case chars s of [] \<Rightarrow> Inl IndexError | c # _ \<Rightarrow> Inr (PStr c))"
| "subscript0 (PDict kvs) = Inl KeyError"
| "subscript0 _ = Inl TypeError"

text \<open>\<^verbatim>\<open>x[:12]\<close>: lists and strings can be sliced.\<close>

fun slice12 :: "pyval \<Rightarrow> py_error + pyval" where
  "slice12 (PList xs) = Inr (PList (take 12 xs))"
| "slice12 (PStr s) = Inr (PStr (concat (take 12 (chars s))))"
| "slice12 _ = Inl TypeError"

text \<open>The items a \<^verbatim>\<open>for\<close> loop sees in a value that \<open>slice12\<close> returned.\<close>

fun items :: "pyval \<Rightarrow> pyval list" where
  "items (PList xs) = xs"
| "items (PStr s) = map PStr (chars s)"
| "items _ = []"

text \<open>A number is an \<^verbatim>\<open>int\<close> or a \<^verbatim>\<open>float\<close>; \<^verbatim>\<open>bool\<close> is a subclass of \<^verbatim>\<open>int\<close>.\<close>

datatype num = NInt int | NFloat real

fun num_of :: "pyval \<Rightarrow> num option" where
  "num_of (PInt n) = Some (NInt n)"
| "num_of (PFloat x) = Some (NFloat x)"
| "num_of (PBool b) = Some (NInt (if b then 1 else 0))"
| "num_of _ = None"

text \<open>The conversion of a number to a float, as mixed arithmetic and \<^verbatim>\<open>math\<close> make
  it.\<close>

fun to_float :: "float_ops \<Rightarrow> num \<Rightarrow> py_error + real" where
  "to_float F (NFloat x) = Inr x"
| "to_float F (NInt n) = (case f_of_int F n of None \<Rightarrow> Inl OverflowError | Some x \<Rightarrow> Inr x)"

text \<open>\<^verbatim>\<open>x - y\<close>: exact on two ints, float subtraction otherwise, \<open>TypeError\<close> on what is
  not a number.\<close>

definition py_sub :: "float_ops \<Rightarrow> pyval \<Rightarrow> pyval \<Rightarrow> py_error + num" where
  "py_sub F x y =
     (case (num_of x, num_of y) of
        (Some (NInt i), Some (NInt j)) \<Rightarrow> Inr (NInt (i - j))
      | (Some a, Some b) \<Rightarrow>
          bind (to_float F a) (\<lambda>u. bind (to_float F b) (\<lambda>v. Inr (NFloat (f_sub F u v))))
      | _ \<Rightarrow> Inl TypeError)"

text \<open>\<^verbatim>\<open>math.radians(x)\<close>\<close>

definition radians :: "float_ops \<Rightarrow> num \<Rightarrow> py_error + real" where
  "radians F x = bind (to_float F x) (\<lambda>u. Inr (f_radians F u))"

text \<open>
  \<^verbatim>\<open>str.strip()\<close>: the whitespace characters of Python are removed at both ends. They
  are U+0009 to U+000D, U+001C to U+0020, U+0085, U+00A0, U+1680, U+2000 to U+200A,
  U+2028, U+2029, U+202F, U+205F and U+3000, here in UTF-8.
\<close>

definition whitespace :: "string list" where
  "whitespace =
     [[CHR 0x09], [CHR 0x0A], [CHR 0x0B], [CHR 0x0C], [CHR 0x0D],
      [CHR 0x1C], [CHR 0x1D], [CHR 0x1E], [CHR 0x1F], [CHR 0x20],
      [CHR 0xC2, CHR 0x85], [CHR 0xC2, CHR 0xA0], [CHR 0xE1, CHR 0x9A, CHR 0x80],
      [CHR 0xE2, CHR 0x80, CHR 0x80], [CHR 0xE2, CHR 0x80, CHR 0x81],
      [CHR 0xE2, CHR 0x80, CHR 0x82], [CHR 0xE2, CHR 0x80, CHR 0x83],
      [CHR 0xE2, CHR 0x80, CHR 0x84], [CHR 0xE2, CHR 0x80, CHR 0x85],
      [CHR 0xE2, CHR 0x80, CHR 0x86], [CHR 0xE2, CHR 0x80, CHR 0x87],
      [CHR 0xE2, CHR 0x80, CHR 0x88], [CHR 0xE2, CHR 0x80, CHR 0x89],
      [CHR 0xE2, CHR 0x80, CHR 0x8A], [CHR 0xE2, CHR 0x80, CHR 0xA8],
      [CHR 0xE2, CHR 0x80, CHR 0xA9], [CHR 0xE2, CHR 0x80, CHR 0xAF],
      [CHR 0xE2, CHR 0x81, CHR 0x9F], [CHR 0xE3, CHR 0x80, CHR 0x80]]"

text \<open>The string without the leading occurrences of the sequences \<open>ws\<close>.\<close>

function lstrip_seqs :: "string list \<Rightarrow> string \<Rightarrow> string" where
  "lstrip_seqs ws s =
     (case find (\<lambda>w. w \<noteq> [] \<and> take (length w) s = w) ws of
        Some w \<Rightarrow> lstrip_seqs ws (drop (length w) s)
      | None \<Rightarrow> s)"
  by pat_completeness auto
termination
proof (relation "measure (\<lambda>(ws, s). length s)")
  show "wf (measure (\<lambda>(ws, s). length s))" by simp
next
  fix ws :: "string list" and s w :: string
  assume "find (\<lambda>w. w \<noteq> [] \<and> take (length w) s = w) ws = Some w"
  then have w: "w \<noteq> []" and t: "take (length w) s = w"
    by (auto simp: find_Some_iff)
  from w t have "s \<noteq> []" by auto
  with w show "((ws, drop (length w) s), (ws, s)) \<in> measure (\<lambda>(ws, s). length s)"
    by simp
qed

definition strip :: "string \<Rightarrow> string" where
  "strip s = rev (lstrip_seqs (map rev whitespace) (rev (lstrip_seqs whitespace s)))"

text \<open>Decimal text of an integer, as \<^verbatim>\<open>str\<close> gives it.\<close>

definition digit :: "nat \<Rightarrow> char" where
  "digit d = ''0123456789'' ! d"

fun str_nat :: "nat \<Rightarrow> string" where
  "str_nat n = (if n < 10 then [digit n] else str_nat (n div 10) @ [digit (n mod 10)])"

definition str_int :: "int \<Rightarrow> string" where
  "str_int i = (if i < 0 then CHR ''-'' # str_nat (nat (- i)) else str_nat (nat i))"

text \<open>\<^verbatim>\<open>str(x)\<close>, which an f-string applies to each field.\<close>

fun py_str :: "env \<Rightarrow> pyval \<Rightarrow> string" where
  "py_str E (PStr s) = s"
| "py_str E PNone = ''None''"
| "py_str E (PBool b) = (if b then ''True'' else ''False'')"
| "py_str E (PInt n) = str_int n"
| "py_str E v = repr E v"

text \<open>The bullet U+2022 of the listing line in UTF-8, and the line feed.\<close>

definition bullet :: string where
  "bullet = [CHR 0xE2, CHR 0x80, CHR 0xA2]"

definition nl :: string where
  "nl = [CHR 0x0A]"

text \<open>\<^verbatim>\<open>"\n".join(lines)\<close>\<close>

fun join_nl :: "string list \<Rightarrow> string" where
  "join_nl [] = []"
| "join_nl [l] = l"
| "join_nl (l # m # ls) = l @ nl @ join_nl (m # ls)"

section \<open>The helpers (source lines 18 to 49)\<close>

text \<open>
  \<^verbatim>\<open>haversine_km\<close>, source lines 18 to 23, statement by statement. The arguments are
  values of any type. The literals \<open>2\<close> and \<open>1\<close> and the product \<^verbatim>\<open>R * 2\<close> of two ints,
  12742, are converted to floats exactly. \<^verbatim>\<open>math.sqrt\<close> raises \<open>ValueError\<close> below
  zero: first for \<open>a\<close>, then for \<^verbatim>\<open>1 - a\<close>.
\<close>

definition haversine_km ::
  "float_ops \<Rightarrow> pyval \<Rightarrow> pyval \<Rightarrow> pyval \<Rightarrow> pyval \<Rightarrow> py_error + real" where
  "haversine_km F lat1 lng1 lat2 lng2 =
     bind (py_sub F lat2 lat1) (\<lambda>s1.
     bind (radians F s1) (\<lambda>dlat.
     bind (py_sub F lng2 lng1) (\<lambda>s2.
     bind (radians F s2) (\<lambda>dlng.
     (let h1 = f_pow2 F (f_sin F (f_div F dlat 2)) in
      bind (case num_of lat1 of None \<Rightarrow> Inl TypeError | Some n \<Rightarrow> radians F n) (\<lambda>r1.
      bind (case num_of lat2 of None \<Rightarrow> Inl TypeError | Some n \<Rightarrow> radians F n) (\<lambda>r2.
      (let h2 = f_pow2 F (f_sin F (f_div F dlng 2));
           a = f_add F h1 (f_mul F (f_mul F (f_cos F r1) (f_cos F r2)) h2)
       in if a < 0 then Inl ValueError
          else if f_sub F 1 a < 0 then Inl ValueError
          else Inr (f_mul F 12742
                      (f_atan2 F (f_sqrt F a) (f_sqrt F (f_sub F 1 a))))))))))))"

text \<open>The dictionary \<^verbatim>\<open>get_location_from_ip\<close> returns.\<close>

record ip_location =
  ip_city :: pyval
  ip_country :: pyval
  ip_lat :: pyval
  ip_lng :: pyval

text \<open>\<^verbatim>\<open>get_location_from_ip\<close>: the whole body is inside \<^verbatim>\<open>try\<close>, every exception
  ends in \<^verbatim>\<open>return None\<close>.\<close>

definition get_location_from_ip :: "env \<Rightarrow> ip_location option" where
  "get_location_from_ip E =
     (case ip_api E of
        Raises e \<Rightarrow> None
      | Returns data \<Rightarrow>
          (case subscript data ''status'' of
             Inl e \<Rightarrow> None
           | Inr st \<Rightarrow>
               if st = PStr ''success'' then
                 (case bind (py_get data ''city'' (PStr ''Unknown'')) (\<lambda>c.
                       bind (py_get data ''countryCode'' (PStr '''')) (\<lambda>cc.
                       bind (subscript data ''lat'') (\<lambda>la.
                       bind (subscript data ''lon'') (\<lambda>lo.
                       Inr \<lparr>ip_city = c, ip_country = cc, ip_lat = la, ip_lng = lo\<rparr>)))) of
                    Inl e \<Rightarrow> None
                  | Inr ip \<Rightarrow> Some ip)
               else None))"

text \<open>\<^verbatim>\<open>geocode_city\<close>: no \<^verbatim>\<open>try\<close>; what the request, the decoding or the path into
  the answer raises leaves the function.\<close>

definition geocode_city :: "env \<Rightarrow> string \<Rightarrow> py_error + pyval \<times> pyval" where
  "geocode_city E city =
     (case geocode_api E city (API_KEY E) of
        Raises e \<Rightarrow> Inl e
      | Returns r \<Rightarrow>
          bind (py_get r ''status'' PNone) (\<lambda>st.
            if st = PStr ''OK'' then
              bind (subscript r ''results'') (\<lambda>rs.
              bind (subscript0 rs) (\<lambda>r0.
              bind (subscript r0 ''geometry'') (\<lambda>g.
              bind (subscript g ''location'') (\<lambda>loc.
              bind (subscript loc ''lat'') (\<lambda>la.
              bind (subscript loc ''lng'') (\<lambda>lo.
              Inr (la, lo)))))))
            else Inr (PNone, PNone)))"

section \<open>The tool function (source lines 55 to 150)\<close>

text \<open>
  Source lines 79 to 95, the location block. \<^verbatim>\<open>not (lat and lng)\<close> tests truth
  values, so it holds when either variable is \<^verbatim>\<open>None\<close> or a zero. The result is
  the pair of variables \<^verbatim>\<open>lat\<close>, \<^verbatim>\<open>lng\<close> and \<^verbatim>\<open>detected_city\<close>, with the calls
  made. \<^verbatim>\<open>if ip\<close> holds for every dictionary the helper returns, since it has
  four keys.
\<close>

definition resolve_location ::
  "env \<Rightarrow> string option \<Rightarrow> real option \<Rightarrow> real option \<Rightarrow> (pyval \<times> pyval \<times> string) flow \<times> call list" where
  "resolve_location E city lat lng =
     (let geocoded =
            (case city of
               Some c \<Rightarrow>
                 if c \<noteq> [] \<and> \<not> (truthy (opt_float lat) \<and> truthy (opt_float lng))
                 then (geocode_city E c, [Geocode c (API_KEY E)])
                 else (Inr (opt_float lat, opt_float lng), [])
             | None \<Rightarrow> (Inr (opt_float lat, opt_float lng), []))
      in case geocoded of
           (Inl e, tr) \<Rightarrow> (Raise e, tr)
         | (Inr (la, lo), tr) \<Rightarrow>
             if \<not> (truthy la \<and> truthy lo) then
               (case get_location_from_ip E of
                  Some ip \<Rightarrow>
                    (Go (ip_lat ip, ip_lng ip,
                         py_str E (ip_city ip) @ '', '' @ py_str E (ip_country ip)),
                     tr @ [IpLookup])
                | None \<Rightarrow>
                    (Return (ErrorDict
                       ''Unable to detect your location. Please provide a city name.''),
                     tr @ [IpLookup]))
             else (Go (la, lo, or_else city ''your area''), tr))"

text \<open>Source line 97.\<close>

definition keyword_of :: "string option \<Rightarrow> string" where
  "keyword_of specialty =
     (case specialty of
        Some s \<Rightarrow> if s \<noteq> [] then strip s else ''doctor''
      | None \<Rightarrow> ''doctor'')"

text \<open>Source lines 100 to 105.\<close>

definition search_params :: "env \<Rightarrow> string option \<Rightarrow> pyval \<Rightarrow> pyval \<Rightarrow> int \<Rightarrow> places_params" where
  "search_params E specialty lat lng radius_km =
     \<lparr>location = py_str E lat @ '','' @ py_str E lng,
      radius = min (radius_km * 1000) 50000,
      keyword = keyword_of specialty,
      key = API_KEY E\<rparr>"

text \<open>One entry of \<^verbatim>\<open>results\<close> (source lines 127 to 134).\<close>

record doctor =
  name :: pyval
  address :: pyval
  rating :: pyval
  reviews :: pyval
  distance_km :: real
  open_now :: pyval

text \<open>The body of the first loop, source lines 124 to 134, for one place \<open>p\<close>.\<close>

definition make_entry :: "env \<Rightarrow> pyval \<Rightarrow> pyval \<Rightarrow> pyval \<Rightarrow> py_error + doctor" where
  "make_entry E lat lng p =
     bind (subscript p ''geometry'') (\<lambda>g.
     bind (subscript g ''location'') (\<lambda>loc.
     bind (subscript loc ''lat'') (\<lambda>plat.
     bind (subscript loc ''lng'') (\<lambda>plng.
     bind (haversine_km (fops E) lat lng plat plng) (\<lambda>h.
     bind (py_get p ''name'' (PStr ''Unknown'')) (\<lambda>n.
     bind (py_get p ''vicinity'' (PStr ''No address'')) (\<lambda>a.
     bind (py_get p ''rating'' (PStr ''No rating'')) (\<lambda>r.
     bind (py_get p ''user_ratings_total'' (PInt 0)) (\<lambda>u.
     bind (py_get p ''opening_hours'' (PDict [])) (\<lambda>oh.
     bind (py_get oh ''open_now'' PNone) (\<lambda>opn.
     Inr \<lparr>name = n, address = a, rating = r, reviews = u,
          distance_km = f_round1 (fops E) h, open_now = opn\<rparr>)))))))))))"

text \<open>The first loop, source lines 122 to 134: it stops at the first exception.\<close>

fun build_results :: "env \<Rightarrow> pyval \<Rightarrow> pyval \<Rightarrow> pyval list \<Rightarrow> py_error + doctor list" where
  "build_results E lat lng [] = Inr []"
| "build_results E lat lng (p # ps) =
     bind (make_entry E lat lng p) (\<lambda>d.
     bind (build_results E lat lng ps) (\<lambda>ds. Inr (d # ds)))"

text \<open>Source line 139, the f-string of one listing line.\<close>

definition format_line :: "env \<Rightarrow> nat \<Rightarrow> doctor \<Rightarrow> string" where
  "format_line E i d =
     str_int (int i) @ ''. '' @ py_str E (name d) @ '' '' @ bullet @ '' '' @
     py_str E (rating d) @ '' '' @ py_str E (reviews d) @ '' '' @ bullet @ '' '' @
     py_str E (PFloat (distance_km d)) @ '' '' @ bullet @ '' '' @ py_str E (open_now d)"

text \<open>The second loop, source lines 136 to 140: \<^verbatim>\<open>enumerate(results, i)\<close>.\<close>

fun render_lines :: "env \<Rightarrow> nat \<Rightarrow> doctor list \<Rightarrow> string list" where
  "render_lines E i [] = []"
| "render_lines E i (d # ds) = format_line E i d # render_lines E (Suc i) ds"

text \<open>Source lines 144 to 150, the text block around the listing.\<close>

definition page :: "string option \<Rightarrow> string \<Rightarrow> string list \<Rightarrow> string" where
  "page specialty detected_city lines =
     nl @ ''    Here are the top '' @ or_else specialty ''doctors'' @ '' near '' @
     detected_city @ '':'' @ nl @ nl @ ''    '' @ join_nl lines @ nl @ nl @
     ''    Do you want directions, phone number, or another specialty?'' @ nl @ ''    ''"

text \<open>Source lines 108 to 150: what the function does with the answer of the nearby
  search. The \<^verbatim>\<open>try\<close> around it is commented out in the source.\<close>

definition handle_response ::
  "env \<Rightarrow> string option \<Rightarrow> int \<Rightarrow> pyval \<Rightarrow> pyval \<Rightarrow> string \<Rightarrow> response \<Rightarrow> py_error + tool_result" where
  "handle_response E specialty radius_km lat lng detected_city answer =
     (case answer of
        Raises e \<Rightarrow> Inl e
      | Returns resp \<Rightarrow>
          bind (py_get resp ''status'' PNone) (\<lambda>st.
            if st = PStr ''REQUEST_DENIED'' then
              Inr (ErrorDict ''Google Places API not enabled or billing inactive.'')
            else if st = PStr ''OVER_QUERY_LIMIT'' then
              Inr (ErrorDict ''API quota exceeded.'')
            else
              bind (py_get resp ''results'' (PList [])) (\<lambda>rs.
              bind (slice12 rs) (\<lambda>places.
                if \<not> truthy places then
                  Inr (ErrorDict (''No doctors found within '' @ str_int radius_km @
                                  '' km of '' @ detected_city @ ''.''))
                else
                  bind (build_results E lat lng (items places)) (\<lambda>results.
                  Inr (Rendered (page specialty detected_city
                                   (render_lines E 1 results))))))))"

text \<open>\<^verbatim>\<open>find_doctors\<close>: the value returned or the exception raised, and the calls made.\<close>

definition find_doctors ::
  "env \<Rightarrow> string option \<Rightarrow> string option \<Rightarrow> real option \<Rightarrow> real option \<Rightarrow> int
     \<Rightarrow> (py_error + tool_result) \<times> call list" where
  "find_doctors E specialty city lat lng radius_km =
     (case resolve_location E city lat lng of
        (Raise e, tr) \<Rightarrow> (Inl e, tr)
      | (Return r, tr) \<Rightarrow> (Inr r, tr)
      | (Go (la, lo, detected_city), tr) \<Rightarrow>
          (let params = search_params E specialty la lo radius_km
           in (handle_response E specialty radius_km la lo detected_city
                 (nearbysearch_api E params),
               tr @ [NearbySearch params])))"

section \<open>Sample data\<close>

text \<open>A place as the nearby search returns it, here without a rating, at the point
  (12.97, 77.59); a result list of twenty places; and a world in which every
  collaborator answers well. Its float operations are the exact ones: the sample
  places lie at the search origin, where the distance is 0.0 with or without rounding.
  The examples below run the function in this world and in variations of it.\<close>

text \<open>Float operations without rounding: the mathematical functions themselves.
  \<open>atan2\<close> is the angle of the point \<open>(x, y)\<close>, and \<open>round_tenth\<close> rounds to the nearest
  tenth, a tie to the even one.\<close>

definition atan2 :: "real \<Rightarrow> real \<Rightarrow> real" where
  "atan2 y x =
     (if 0 < x then arctan (y / x)
      else if x < 0 then (if 0 \<le> y then arctan (y / x) + pi else arctan (y / x) - pi)
      else if 0 < y then pi / 2
      else if y < 0 then - (pi / 2)
      else 0)"

definition round_tenth :: "real \<Rightarrow> real" where
  "round_tenth x =
     (let y = x * 10; f = \<lfloor>y\<rfloor>; d = y - of_int f
      in of_int (if d < 1 / 2 then f else if 1 / 2 < d then f + 1
                 else if even f then f else f + 1) / 10)"

definition exact_ops :: float_ops where
  "exact_ops =
     \<lparr>f_of_int = (\<lambda>n. Some (of_int n)),
      f_add = (\<lambda>x y. x + y), f_sub = (\<lambda>x y. x - y),
      f_mul = (\<lambda>x y. x * y), f_div = (\<lambda>x y. x / y),
      f_pow2 = (\<lambda>x. x * x),
      f_radians = (\<lambda>d. d * pi / 180),
      f_sin = sin, f_cos = cos, f_sqrt = sqrt, f_atan2 = atan2,
      f_round1 = round_tenth\<rparr>"

text \<open>
  Float operations that give, at the arguments listed, the doubles that CPython
  computes for them (IEEE 754 binary64, each written as the fraction it denotes), and
  the exact value elsewhere. The arguments are those that \<^verbatim>\<open>haversine_km\<close> meets
  between the points (-87.5, 0.0) and (87.5, 180.0), in either order:
  \<^verbatim>\<open>radians(175.0) = 3.0543261909900767\<close>, \<^verbatim>\<open>radians(180.0) = 3.141592653589793\<close>,
  \<^verbatim>\<open>radians(87.5) = 1.5271630954950384\<close>, \<^verbatim>\<open>sin(1.5271630954950384) = 0.9990482215818578\<close>,
  \<^verbatim>\<open>sin(1.5707963267948966) = 1.0\<close>, \<^verbatim>\<open>cos(1.5271630954950384) = 0.04361938736533601\<close>,
  \<^verbatim>\<open>0.9990482215818578 ** 2 = 0.9980973490458729\<close>,
  \<^verbatim>\<open>0.04361938736533601 * 0.04361938736533601 = 0.0019026509541272346\<close> and
  \<^verbatim>\<open>0.9980973490458729 + 0.0019026509541272346 = 1.0000000000000002\<close>.
\<close>

definition ieee_sample_ops :: float_ops where
  "ieee_sample_ops =
     exact_ops
     \<lparr>f_radians := (\<lambda>d.
        if d = 175 then 1719432786951357 / 562949953421312
        else if d = - 175 then - (1719432786951357 / 562949953421312)
        else if d = 180 then 884279719003555 / 281474976710656
        else if d = - 180 then - (884279719003555 / 281474976710656)
        else if d = 175 / 2 then 1719432786951357 / 1125899906842624
        else if d = - (175 / 2) then - (1719432786951357 / 1125899906842624)
        else d * pi / 180),
      f_sin := (\<lambda>x.
        if x = 1719432786951357 / 1125899906842624 then 8998626396882423 / 9007199254740992
        else if x = - (1719432786951357 / 1125899906842624)
          then - (8998626396882423 / 9007199254740992)
        else if x = 884279719003555 / 562949953421312 then 1
        else if x = - (884279719003555 / 562949953421312) then - 1
        else sin x),
      f_cos := (\<lambda>x.
        if x = 1719432786951357 / 1125899906842624 then 3143108106954505 / 72057594037927936
        else if x = - (1719432786951357 / 1125899906842624)
          then 3143108106954505 / 72057594037927936
        else cos x),
      f_pow2 := (\<lambda>x.
        if x = 8998626396882423 / 9007199254740992 then 4495030849242473 / 4503599627370496
        else if x = - (8998626396882423 / 9007199254740992)
          then 4495030849242473 / 4503599627370496
        else x * x),
      f_mul := (\<lambda>x y.
        if x = 3143108106954505 / 72057594037927936 \<and> y = 3143108106954505 / 72057594037927936
        then 8774428803096097 / 4611686018427387904
        else x * y),
      f_add := (\<lambda>x y.
        if x = 4495030849242473 / 4503599627370496 \<and> y = 8774428803096097 / 4611686018427387904
        then 4503599627370497 / 4503599627370496
        else x + y)\<rparr>"

definition sample_place :: "string \<Rightarrow> pyval" where
  "sample_place n =
     PDict [(''name'', PStr n), (''user_ratings_total'', PInt 7),
            (''geometry'', PDict [(''location'',
               PDict [(''lat'', PFloat 12.97), (''lng'', PFloat 77.59)])])]"

text \<open>The entry that the first loop builds from \<open>sample_place n\<close> when the search
  origin is the same point.\<close>

definition sample_doctor :: "string \<Rightarrow> doctor" where
  "sample_doctor n =
     \<lparr>name = PStr n, address = PStr ''No address'', rating = PStr ''No rating'',
      reviews = PInt 7, distance_km = 0, open_now = PNone\<rparr>"

definition sample_places :: "pyval list" where
  "sample_places = map sample_place
     [''Asha'', ''Bala'', ''Chitra'', ''Dev'', ''Esha'', ''Farid'', ''Gita'', ''Hari'', ''Indu'', ''Jaya'', ''Kiran'', ''Lata'', ''Mohan'', ''Nila'', ''Omar'', ''Priya'', ''Qadir'', ''Ravi'', ''Sita'', ''Tara'']"

definition sample_repr :: "pyval \<Rightarrow> string" where
  "sample_repr v =
     (if v = PFloat 12.97 then ''12.97'' else if v = PFloat 77.59 then ''77.59''
      else if v = PFloat 18.52 then ''18.52'' else if v = PFloat 73.86 then ''73.86''
      else if v = PFloat 0 then ''0.0'' else ''?'')"

definition sample_env :: env where
  "sample_env =
     \<lparr>API_KEY = ''k'',
      ip_api = Returns (PDict [(''status'', PStr ''success''), (''city'', PStr ''Pune''),
                 (''countryCode'', PStr ''IN''), (''lat'', PFloat 18.52),
                 (''lon'', PFloat 73.86)]),
      geocode_api = (\<lambda>address k. Returns (PDict [(''status'', PStr ''OK''),
                 (''results'', PList [PDict [(''geometry'', PDict [(''location'',
                    PDict [(''lat'', PFloat 12.97), (''lng'', PFloat 77.59)])])]])])),
      nearbysearch_api = (\<lambda>p. Returns (PDict [(''status'', PStr ''OK''),
                 (''results'', PList sample_places)])),
      fops = exact_ops,
      repr = sample_repr\<rparr>"

section \<open>Facts about the model\<close>

declare str_nat.simps [simp del] lstrip_seqs.simps [simp del]

lemma bind_InrE:
  assumes "bind m f = Inr y"
  obtains x where "m = Inr x" and "f x = Inr y"
  using assms by (cases m) auto

subsection \<open>The distance\<close>

lemma round_tenth_zero: "round_tenth 0 = 0"
  by (simp add: round_tenth_def)

text \<open>Without rounding the distance of a point to itself is 0.\<close>

lemma haversine_km_exact_diag:
  "haversine_km exact_ops (PFloat x) (PFloat y) (PFloat x) (PFloat y) = Inr 0"
  by (simp add: haversine_km_def py_sub_def radians_def exact_ops_def atan2_def)

text \<open>With any float operations that take zero to zero as IEEE arithmetic does, the
  distance of a point to itself is 0.\<close>

lemma haversine_km_diag:
  assumes "\<And>x. f_sub F x x = 0" and "f_radians F 0 = 0" and "f_div F 0 2 = 0"
    and "f_sin F 0 = 0" and "f_pow2 F 0 = 0" and "\<And>x. f_mul F x 0 = 0"
    and "f_add F 0 0 = 0" and "f_sub F 1 0 = 1" and "f_sqrt F 0 = 0" and "f_sqrt F 1 = 1"
    and "f_atan2 F 0 1 = 0"
  shows "haversine_km F (PFloat x) (PFloat y) (PFloat x) (PFloat y) = Inr 0"
  using assms by (simp add: haversine_km_def py_sub_def radians_def)

text \<open>With any float operations that have the symmetries of IEEE arithmetic
  (subtraction, \<^verbatim>\<open>radians\<close>, halving and \<^verbatim>\<open>sin\<close> are odd, squaring is even, the product
  commutes), exchanging the two points does not change the outcome: the same number,
  or the same exception.\<close>

lemma haversine_km_sym:
  assumes sub: "\<And>x y. f_sub F y x = - f_sub F x y"
    and rad: "\<And>x. f_radians F (- x) = - f_radians F x"
    and half: "\<And>x. f_div F (- x) 2 = - f_div F x 2"
    and sn: "\<And>x. f_sin F (- x) = - f_sin F x"
    and sq: "\<And>x. f_pow2 F (- x) = f_pow2 F x"
    and mul: "\<And>x y. f_mul F x y = f_mul F y x"
  shows "haversine_km F (PFloat a) (PFloat b) (PFloat c) (PFloat d) =
         haversine_km F (PFloat c) (PFloat d) (PFloat a) (PFloat b)"
proof -
  have h: "f_pow2 F (f_sin F (f_div F (f_radians F (f_sub F v u)) 2)) =
           f_pow2 F (f_sin F (f_div F (f_radians F (f_sub F u v)) 2))" for u v
    by (simp only: sub [of v u] rad half sn sq)
  show ?thesis
    unfolding haversine_km_def py_sub_def radians_def Let_def
    by (simp add: h [of c a] h [of d b] mul [of "f_cos F (f_radians F c)"])
qed

text \<open>Without rounding the argument of the two square roots lies between 0 and 1, so
  \<^verbatim>\<open>math.sqrt\<close> does not raise: an exception of \<^verbatim>\<open>haversine_km\<close> on floats is an
  effect of rounding.\<close>

lemma unit_product_bound:
  fixes s1 s2 c1 c2 u :: real
  assumes u: "\<bar>u\<bar> \<le> 1" and p1: "s1\<^sup>2 + c1\<^sup>2 = 1" and p2: "s2\<^sup>2 + c2\<^sup>2 = 1"
  shows "\<bar>s1 * s2 + c1 * c2 * u\<bar> \<le> 1"
proof -
  have a: "\<bar>s1 * s2\<bar> \<le> (s1\<^sup>2 + s2\<^sup>2) / 2"
  proof -
    have "2 * \<bar>s1\<bar> * \<bar>s2\<bar> \<le> \<bar>s1\<bar>\<^sup>2 + \<bar>s2\<bar>\<^sup>2" by (rule sum_squares_bound)
    then show ?thesis by (simp add: abs_mult)
  qed
  have b: "\<bar>c1 * c2\<bar> \<le> (c1\<^sup>2 + c2\<^sup>2) / 2"
  proof -
    have "2 * \<bar>c1\<bar> * \<bar>c2\<bar> \<le> \<bar>c1\<bar>\<^sup>2 + \<bar>c2\<bar>\<^sup>2" by (rule sum_squares_bound)
    then show ?thesis by (simp add: abs_mult)
  qed
  have "\<bar>c1 * c2 * u\<bar> = \<bar>c1 * c2\<bar> * \<bar>u\<bar>" by (simp add: abs_mult)
  also have "\<dots> \<le> \<bar>c1 * c2\<bar> * 1" using u by (intro mult_left_mono) simp_all
  finally have c: "\<bar>c1 * c2 * u\<bar> \<le> (c1\<^sup>2 + c2\<^sup>2) / 2" using b by simp
  have "\<bar>s1 * s2 + c1 * c2 * u\<bar> \<le> \<bar>s1 * s2\<bar> + \<bar>c1 * c2 * u\<bar>" by (rule abs_triangle_ineq)
  also have "\<dots> \<le> (s1\<^sup>2 + s2\<^sup>2) / 2 + (c1\<^sup>2 + c2\<^sup>2) / 2" using a c by (rule add_mono)
  also have "\<dots> = 1" using p1 p2 by (simp add: field_simps)
  finally show ?thesis .
qed

lemma haversine_term_range:
  fixes p1 p2 l :: real
  defines "a \<equiv> (sin ((p2 - p1) / 2))\<^sup>2 + cos p1 * cos p2 * (sin (l / 2))\<^sup>2"
  shows "0 \<le> a \<and> a \<le> 1"
proof -
  have "2 * ((p2 - p1) / 2) = p2 - p1" by simp
  then have d: "cos (p2 - p1) = 1 - 2 * (sin ((p2 - p1) / 2))\<^sup>2"
    using cos_double_sin [of "(p2 - p1) / 2"] by (simp only:)
  have e: "cos l = 1 - 2 * (sin (l / 2))\<^sup>2"
    using cos_double_sin [of "l / 2"] by simp
  have f: "cos (p2 - p1) = cos p1 * cos p2 + sin p1 * sin p2"
    by (simp add: cos_diff mult.commute)
  have X: "(sin ((p2 - p1) / 2))\<^sup>2 = (1 - (cos p1 * cos p2 + sin p1 * sin p2)) / 2"
    using d f by simp
  have Y: "(sin (l / 2))\<^sup>2 = (1 - cos l) / 2"
    using e by simp
  have a2: "2 * a = 1 - (sin p1 * sin p2 + cos p1 * cos p2 * cos l)"
    unfolding a_def X Y by (simp add: field_simps)
  have "\<bar>sin p1 * sin p2 + cos p1 * cos p2 * cos l\<bar> \<le> 1"
    by (rule unit_product_bound) simp_all
  then show ?thesis using a2 by (simp add: abs_le_iff)
qed

lemma haversine_km_exact_total:
  "\<exists>r. haversine_km exact_ops (PFloat lat1) (PFloat lng1) (PFloat lat2) (PFloat lng2) = Inr r"
proof -
  define A where "A = (sin (((lat2 - lat1) * pi / 180) / 2))\<^sup>2 +
    cos (lat1 * pi / 180) * cos (lat2 * pi / 180) * (sin (((lng2 - lng1) * pi / 180) / 2))\<^sup>2"
  have e: "(lat2 - lat1) * pi / 180 = lat2 * pi / 180 - lat1 * pi / 180"
    by (simp add: diff_divide_distrib left_diff_distrib)
  have r: "0 \<le> A \<and> A \<le> 1"
    unfolding A_def e
    by (rule haversine_term_range [of "lat2 * pi / 180" "lat1 * pi / 180" "(lng2 - lng1) * pi / 180"])
  have "haversine_km exact_ops (PFloat lat1) (PFloat lng1) (PFloat lat2) (PFloat lng2) =
          (if A < 0 then Inl ValueError else if 1 - A < 0 then Inl ValueError
           else Inr (12742 * atan2 (sqrt A) (sqrt (1 - A))))"
    by (simp add: haversine_km_def py_sub_def radians_def exact_ops_def Let_def A_def
        power2_eq_square)
  then show ?thesis using r by simp
qed

subsection \<open>The location block and the trace\<close>

text \<open>With two coordinates that are not zero the block makes no call.\<close>

lemma resolve_explicit:
  "lat \<noteq> 0 \<Longrightarrow> lng \<noteq> 0 \<Longrightarrow>
   resolve_location E city (Some lat) (Some lng) = (Go (PFloat lat, PFloat lng, or_else city ''your area''), [])"
  by (simp add: resolve_location_def split: option.splits)

lemma explicit_coordinates_trace:
  assumes "lat \<noteq> 0" and "lng \<noteq> 0"
  shows "snd (find_doctors E specialty city (Some lat) (Some lng) radius_km) =
           [NearbySearch (search_params E specialty (PFloat lat) (PFloat lng) radius_km)]"
  using assms by (simp add: find_doctors_def resolve_explicit Let_def)

text \<open>A geocoded pair of two truthy values is the origin, and the city is the label.\<close>

lemma geocoded_coordinates_used:
  assumes "c \<noteq> []" and "geocode_city E c = Inr (la, lo)" and "truthy la" and "truthy lo"
  shows "resolve_location E (Some c) None None = (Go (la, lo, c), [Geocode c (API_KEY E)])"
  using assms by (simp add: resolve_location_def)

text \<open>The nearby search is called at most once, after the location block, with the
  parameters of source lines 100 to 105.\<close>

lemma resolve_no_nearby: "NearbySearch p \<notin> set (snd (resolve_location E city lat lng))"
  by (auto simp: resolve_location_def Let_def split: option.splits sum.splits prod.splits if_splits)

lemma nearby_in_trace:
  "NearbySearch p \<in> set (snd (find_doctors E specialty city lat lng radius_km)) \<Longrightarrow>
   \<exists>la lo label tr. resolve_location E city lat lng = (Go (la, lo, label), tr) \<and> p = search_params E specialty la lo radius_km"
  using resolve_no_nearby [of p E city lat lng]
  by (auto simp: find_doctors_def Let_def split: prod.splits flow.splits)

lemma keyword_of_cases:
  "keyword_of None = ''doctor''" "keyword_of (Some []) = ''doctor''"
  "s \<noteq> [] \<Longrightarrow> keyword_of (Some s) = strip s"
  by (simp_all add: keyword_of_def)

subsection \<open>The two loops\<close>

lemma build_results_nth:
  "build_results E la lo ps = Inr ds \<Longrightarrow>
   length ds = length ps \<and> (\<forall>i<length ps. make_entry E la lo (ps ! i) = Inr (ds ! i))"
proof (induction ps arbitrary: ds)
  case Nil
  then show ?case by simp
next
  case (Cons p ps)
  from Cons.prems obtain d ds' where
    d: "make_entry E la lo p = Inr d" and ds': "build_results E la lo ps = Inr ds'" and eq: "ds = d # ds'"
    by (cases "make_entry E la lo p"; cases "build_results E la lo ps") auto
  from Cons.IH [OF ds'] have
    len: "length ds' = length ps" and nth: "\<forall>i<length ps. make_entry E la lo (ps ! i) = Inr (ds' ! i)"
    by simp_all
  show ?case
  proof (intro conjI allI impI)
    show "length ds = length (p # ps)" using len eq by simp
  next
    fix i assume "i < length (p # ps)"
    then show "make_entry E la lo ((p # ps) ! i) = Inr (ds ! i)"
      using d nth eq by (cases i) simp_all
  qed
qed

lemma length_render_lines: "length (render_lines E k ds) = length ds"
  by (induction ds arbitrary: k) simp_all

lemma render_lines_nth:
  "i < length ds \<Longrightarrow> render_lines E k ds ! i = format_line E (k + i) (ds ! i)"
proof (induction ds arbitrary: k i)
  case Nil
  then show ?case by simp
next
  case (Cons d ds)
  then show ?case by (cases i) simp_all
qed

lemma make_entry_no_rating:
  assumes "make_entry E la lo (PDict pkvs) = Inr d" and "map_of pkvs ''rating'' = None"
  shows "rating d = PStr ''No rating''"
  using assms unfolding make_entry_def
  by (auto elim!: bind_InrE)

text \<open>What \<^verbatim>\<open>"\n".join\<close> gives for a list that is not empty: every line but the last
  with a line feed after it, then the last line.\<close>

lemma join_nl_concat:
  "ls \<noteq> [] \<Longrightarrow> join_nl ls = concat (map (\<lambda>l. l @ [CHR 0x0A]) (butlast ls)) @ last ls"
  by (induction ls rule: join_nl.induct) (simp_all add: nl_def)

text \<open>The fields of an entry are read from the place with the defaults of source lines
  128 to 131.\<close>

lemma make_entry_fields:
  assumes "make_entry E la lo p = Inr d"
  shows "py_get p ''name'' (PStr ''Unknown'') = Inr (name d)"
    and "py_get p ''rating'' (PStr ''No rating'') = Inr (rating d)"
    and "py_get p ''user_ratings_total'' (PInt 0) = Inr (reviews d)"
  using assms unfolding make_entry_def
  by (auto elim!: bind_InrE)

text \<open>The path to the listing: the location is resolved, the answer is a dict whose
  status is neither denial nor quota, its result list is not empty, and the first loop
  ends without an exception.\<close>

lemma find_doctors_listing:
  assumes "resolve_location E city lat lng = (Go (la, lo, label), tr)"
    and "nearbysearch_api E (search_params E specialty la lo radius_km) = Returns (PDict kvs)"
    and "map_of kvs ''status'' \<noteq> Some (PStr ''REQUEST_DENIED'')"
    and "map_of kvs ''status'' \<noteq> Some (PStr ''OVER_QUERY_LIMIT'')"
    and "map_of kvs ''results'' = Some (PList rs)"
    and "rs \<noteq> []"
    and "build_results E la lo (take 12 rs) = Inr ds"
  shows "find_doctors E specialty city lat lng radius_km =
           (Inr (Rendered (page specialty label (render_lines E 1 ds))),
            tr @ [NearbySearch (search_params E specialty la lo radius_km)])"
  using assms
  by (auto simp: find_doctors_def handle_response_def Let_def split: option.splits)

subsection \<open>The sample data\<close>

lemma sample_resolve:
  "resolve_location sample_env (Some ''Bangalore'') None None =
     (Go (PFloat 12.97, PFloat 77.59, ''Bangalore''), [Geocode ''Bangalore'' ''k''])"
  by (simp add: resolve_location_def geocode_city_def sample_env_def)

lemma entry_at_origin:
  assumes "fops E = exact_ops"
  shows "make_entry E (PFloat x) (PFloat y)
     (PDict [(''name'', PStr n), (''user_ratings_total'', PInt 7),
             (''geometry'', PDict [(''location'', PDict [(''lat'', PFloat x), (''lng'', PFloat y)])])]) =
   Inr \<lparr>name = PStr n, address = PStr ''No address'', rating = PStr ''No rating'',
        reviews = PInt 7, distance_km = 0, open_now = PNone\<rparr>"
proof -
  have "f_round1 exact_ops 0 = 0"
    by (simp add: exact_ops_def round_tenth_zero)
  then show ?thesis
    using assms by (simp add: make_entry_def haversine_km_exact_diag)
qed

lemma sample_fops: "fops sample_env = exact_ops"
  by (simp add: sample_env_def)

lemma sample_build:
  "build_results sample_env (PFloat 12.97) (PFloat 77.59) (take 12 sample_places) =
     Inr (map sample_doctor [''Asha'', ''Bala'', ''Chitra'', ''Dev'', ''Esha'', ''Farid'',
            ''Gita'', ''Hari'', ''Indu'', ''Jaya'', ''Kiran'', ''Lata''])"
  by (simp add: sample_places_def sample_place_def sample_doctor_def
      entry_at_origin [OF sample_fops])

lemma sample_keyword: "keyword_of (Some ''dentist'') = ''dentist''"
  by (simp add: keyword_of_def strip_def whitespace_def lstrip_seqs.simps)

lemma sample_places_results:
  "map_of [(''status'', PStr ''OK''), (''results'', PList sample_places)] ''results'' =
     Some (PList sample_places)"
  by simp

section \<open>Explicit coordinates (C1)\<close>

text \<open>
  C1 says that a call with both latitude and longitude supplied and not null uses them
  as the search origin and calls neither the geocoder nor the IP lookup. The source
  tests \<^verbatim>\<open>not (lat and lng)\<close>, and the float \<open>0.0\<close> is false in Python: a point on the
  equator or on the prime meridian counts as missing. At latitude \<open>0.0\<close> and longitude
  \<open>-78.45\<close> with the city \<open>Quito\<close> the first call is the geocoder, in every world; with
  no city it is the IP lookup; and in the sample world the origin sent to the nearby
  search is the geocoded point (12.97, 77.59), not the supplied one.
\<close>

theorem zero_coordinate_not_used:
  "(\<exists>tr. snd (find_doctors E specialty (Some ''Quito'') (Some 0) (Some (-78.45)) radius_km) =
           Geocode ''Quito'' (API_KEY E) # tr) \<and>
   (\<exists>tr. snd (find_doctors E specialty None (Some 0) (Some (-78.45)) radius_km) =
           IpLookup # tr) \<and>
   snd (find_doctors sample_env (Some ''dentist'') (Some ''Quito'') (Some 0) (Some (-78.45)) 5) =
     [Geocode ''Quito'' ''k'',
      NearbySearch \<lparr>location = ''12.97,77.59'', radius = 5000, keyword = ''dentist'', key = ''k''\<rparr>]"
proof (intro conjI)
  show "\<exists>tr. snd (find_doctors E specialty (Some ''Quito'') (Some 0) (Some (-78.45)) radius_km) =
           Geocode ''Quito'' (API_KEY E) # tr"
    by (auto simp: find_doctors_def resolve_location_def Let_def
        split: prod.splits sum.splits flow.splits option.splits if_splits)
  show "\<exists>tr. snd (find_doctors E specialty None (Some 0) (Some (-78.45)) radius_km) = IpLookup # tr"
    by (auto simp: find_doctors_def resolve_location_def Let_def
        split: prod.splits sum.splits flow.splits option.splits if_splits)
  show "snd (find_doctors sample_env (Some ''dentist'') (Some ''Quito'') (Some 0) (Some (-78.45)) 5) =
     [Geocode ''Quito'' ''k'',
      NearbySearch \<lparr>location = ''12.97,77.59'', radius = 5000, keyword = ''dentist'', key = ''k''\<rparr>]"
    by (simp add: find_doctors_def resolve_location_def geocode_city_def search_params_def
        sample_keyword sample_env_def sample_repr_def Let_def)
qed

section \<open>Exceptions at the tool boundary (C2)\<close>

text \<open>
  C2 says that \<^verbatim>\<open>find_doctors\<close> never raises and that failures inside geocoding
  are swallowed. \<^verbatim>\<open>get_location_from_ip\<close> has a \<^verbatim>\<open>try\<close>, \<^verbatim>\<open>geocode_city\<close> has
  none, and the \<^verbatim>\<open>try\<close> around the nearby search is commented out. When the geocoder
  fails with a network error or with an undecodable body, the call for the city
  \<open>Delhi\<close> raises that exception after the one geocoding call, with no IP lookup; when
  the nearby search fails, the call raises as well.
\<close>

theorem collaborator_failure_is_raised:
  "find_doctors (E\<lparr>geocode_api := \<lambda>a k. Raises RequestException\<rparr>)
      specialty (Some ''Delhi'') None None radius_km =
     (Inl RequestException, [Geocode ''Delhi'' (API_KEY E)]) \<and>
   find_doctors (E\<lparr>geocode_api := \<lambda>a k. Raises JSONDecodeError\<rparr>)
      specialty (Some ''Delhi'') None None radius_km =
     (Inl JSONDecodeError, [Geocode ''Delhi'' (API_KEY E)]) \<and>
   fst (find_doctors (E\<lparr>nearbysearch_api := \<lambda>p. Raises RequestException\<rparr>)
      specialty None (Some 12.97) (Some 77.59) radius_km) = Inl RequestException"
  by (simp add: find_doctors_def resolve_location_def geocode_city_def handle_response_def
      Let_def)

section \<open>The radius sent (C3)\<close>

text \<open>
  C3: the radius of every nearby search that a call makes is
  \<open>min (radius_km * 1000) 50000\<close> metres; it never exceeds 50000, and for
  \<open>radius_km = 200\<close> it is exactly 50000.
\<close>

theorem nearby_radius_capped:
  assumes "NearbySearch p \<in> set (snd (find_doctors E specialty city lat lng radius_km))"
  shows "radius p = min (radius_km * 1000) 50000 \<and> radius p \<le> 50000 \<and>
         (radius_km = 200 \<longrightarrow> radius p = 50000)"
proof -
  from nearby_in_trace [OF assms] obtain la lo where
    "p = search_params E specialty la lo radius_km" by blast
  then have "radius p = min (radius_km * 1000) 50000"
    by (simp add: search_params_def)
  then show ?thesis by auto
qed

text \<open>A run in the sample world with \<open>radius_km = 200\<close>: the call is in the trace.\<close>

theorem nearby_radius_capped_witness:
  "NearbySearch \<lparr>location = ''12.97,77.59'', radius = 50000, keyword = ''dentist'', key = ''k''\<rparr>
     \<in> set (snd (find_doctors sample_env (Some ''dentist'') None (Some 12.97) (Some 77.59) 200)) \<and>
   radius \<lparr>location = ''12.97,77.59'', radius = 50000, keyword = ''dentist'', key = ''k''\<rparr>
     = min (200 * 1000) 50000"
proof -
  have h: "NearbySearch \<lparr>location = ''12.97,77.59'', radius = 50000, keyword = ''dentist'', key = ''k''\<rparr>
     \<in> set (snd (find_doctors sample_env (Some ''dentist'') None (Some 12.97) (Some 77.59) 200))"
    by (simp add: find_doctors_def resolve_explicit search_params_def sample_keyword
        sample_env_def sample_repr_def Let_def)
  from nearby_radius_capped [OF h] h show ?thesis by simp
qed

section \<open>Geocoded coordinates (C4)\<close>

text \<open>
  C4 says that with a city and no coordinates, a geocoder answer of status \<open>OK\<close> gives
  the resolved coordinate and the IP lookup is not called. The geocoded pair goes
  through the same truth test \<^verbatim>\<open>not (lat and lng)\<close> as in C1. When the first result is
  the point (51.48, 0.0) on the prime meridian, the IP lookup is the second call in
  every world, and in the sample world the origin sent to the nearby search is the
  IP-derived point (18.52, 73.86).
\<close>

theorem geocoded_zero_falls_to_ip:
  "(\<exists>tr. snd (find_doctors
       (E\<lparr>geocode_api := \<lambda>a k. Returns (PDict [(''status'', PStr ''OK''),
          (''results'', PList [PDict [(''geometry'', PDict [(''location'',
             PDict [(''lat'', PFloat 51.48), (''lng'', PFloat 0)])])]])])\<rparr>)
       specialty (Some ''Greenwich'') None None radius_km) =
     Geocode ''Greenwich'' (API_KEY E) # IpLookup # tr) \<and>
   snd (find_doctors
       (sample_env\<lparr>geocode_api := \<lambda>a k. Returns (PDict [(''status'', PStr ''OK''),
          (''results'', PList [PDict [(''geometry'', PDict [(''location'',
             PDict [(''lat'', PFloat 51.48), (''lng'', PFloat 0)])])]])])\<rparr>)
       (Some ''dentist'') (Some ''Greenwich'') None None 5) =
     [Geocode ''Greenwich'' ''k'', IpLookup,
      NearbySearch \<lparr>location = ''18.52,73.86'', radius = 5000, keyword = ''dentist'', key = ''k''\<rparr>]"
proof (intro conjI)
  show "\<exists>tr. snd (find_doctors
       (E\<lparr>geocode_api := \<lambda>a k. Returns (PDict [(''status'', PStr ''OK''),
          (''results'', PList [PDict [(''geometry'', PDict [(''location'',
             PDict [(''lat'', PFloat 51.48), (''lng'', PFloat 0)])])]])])\<rparr>)
       specialty (Some ''Greenwich'') None None radius_km) =
     Geocode ''Greenwich'' (API_KEY E) # IpLookup # tr"
    by (auto simp: find_doctors_def resolve_location_def geocode_city_def Let_def
        split: prod.splits flow.splits option.splits)
  show "snd (find_doctors
       (sample_env\<lparr>geocode_api := \<lambda>a k. Returns (PDict [(''status'', PStr ''OK''),
          (''results'', PList [PDict [(''geometry'', PDict [(''location'',
             PDict [(''lat'', PFloat 51.48), (''lng'', PFloat 0)])])]])])\<rparr>)
       (Some ''dentist'') (Some ''Greenwich'') None None 5) =
     [Geocode ''Greenwich'' ''k'', IpLookup,
      NearbySearch \<lparr>location = ''18.52,73.86'', radius = 5000, keyword = ''dentist'', key = ''k''\<rparr>]"
    by (simp add: find_doctors_def resolve_location_def geocode_city_def get_location_from_ip_def
        search_params_def sample_keyword sample_env_def sample_repr_def Let_def)
qed

section \<open>The keyword sent (C5)\<close>

text \<open>
  C5 says that the keyword is the trimmed specialty, and the literal \<open>doctor\<close> when the
  specialty is null, empty or blank. The source tests the specialty before it strips
  it: a specialty of three spaces is true, so the keyword is its stripped form, the
  empty string, and that is what the nearby search receives.
\<close>

theorem blank_specialty_keyword:
  "keyword_of (Some ''   '') = [] \<and>
   snd (find_doctors E (Some ''   '') None (Some 12.97) (Some 77.59) 20) =
     [NearbySearch \<lparr>location = py_str E (PFloat 12.97) @ '','' @ py_str E (PFloat 77.59),
                     radius = 20000, keyword = [], key = API_KEY E\<rparr>]"
proof -
  have k: "keyword_of (Some ''   '') = []"
    by (simp add: keyword_of_def strip_def whitespace_def lstrip_seqs.simps)
  show ?thesis
    using k by (simp add: find_doctors_def resolve_explicit search_params_def Let_def)
qed

section \<open>The first twelve results, in order (C6)\<close>

text \<open>
  C6: of the result list \<open>rs\<close> of the nearby search the first twelve entries are kept, in
  the order of the list, and one line is rendered for each, numbered from 1. When
  the first loop builds the entries \<open>ds\<close> from them, the call returns the header, the
  lines joined by line feeds, and the closing question; there are \<open>min 12 (length rs)\<close>
  lines; entry \<open>i\<close> is built from \<open>rs ! i\<close>, with its name, rating and review count read
  from that place; line \<open>i\<close> starts with the number \<open>i + 1\<close> and a full stop and carries
  the fields of entry \<open>i\<close> between bullets; and for a list of twenty entries there are
  exactly twelve lines.
\<close>

theorem first_twelve_in_order:
  assumes "resolve_location E city lat lng = (Go (la, lo, label), tr)"
    and "nearbysearch_api E (search_params E specialty la lo radius_km) = Returns (PDict kvs)"
    and "map_of kvs ''status'' \<noteq> Some (PStr ''REQUEST_DENIED'')"
    and "map_of kvs ''status'' \<noteq> Some (PStr ''OVER_QUERY_LIMIT'')"
    and "map_of kvs ''results'' = Some (PList rs)"
    and "rs \<noteq> []"
    and "build_results E la lo (take 12 rs) = Inr ds"
  shows "fst (find_doctors E specialty city lat lng radius_km) =
           Inr (Rendered
             ([CHR 0x0A] @ ''    Here are the top '' @
              (case specialty of None \<Rightarrow> ''doctors''
               | Some s \<Rightarrow> if s = [] then ''doctors'' else s) @
              '' near '' @ label @ '':'' @ [CHR 0x0A, CHR 0x0A] @ ''    '' @
              concat (map (\<lambda>l. l @ [CHR 0x0A]) (butlast (render_lines E 1 ds))) @
              last (render_lines E 1 ds) @ [CHR 0x0A, CHR 0x0A] @
              ''    Do you want directions, phone number, or another specialty?'' @
              [CHR 0x0A] @ ''    '')) \<and>
         length (render_lines E 1 ds) = min 12 (length rs) \<and>
         (\<forall>i < min 12 (length rs).
            make_entry E la lo (rs ! i) = Inr (ds ! i) \<and>
            py_get (rs ! i) ''name'' (PStr ''Unknown'') = Inr (name (ds ! i)) \<and>
            py_get (rs ! i) ''rating'' (PStr ''No rating'') = Inr (rating (ds ! i)) \<and>
            py_get (rs ! i) ''user_ratings_total'' (PInt 0) = Inr (reviews (ds ! i)) \<and>
            render_lines E 1 ds ! i =
              str_int (int (Suc i)) @ ''. '' @ py_str E (name (ds ! i)) @ '' '' @
              [CHR 0xE2, CHR 0x80, CHR 0xA2] @ '' '' @ py_str E (rating (ds ! i)) @ '' '' @
              py_str E (reviews (ds ! i)) @ '' '' @ [CHR 0xE2, CHR 0x80, CHR 0xA2] @ '' '' @
              py_str E (PFloat (distance_km (ds ! i))) @ '' '' @ [CHR 0xE2, CHR 0x80, CHR 0xA2] @ '' '' @
              py_str E (open_now (ds ! i))) \<and>
         (length rs = 20 \<longrightarrow> length (render_lines E 1 ds) = 12)"
proof -
  have len: "length ds = min 12 (length rs)"
    using build_results_nth [OF assms(7)] by (simp add: min.commute)
  have n: "length (render_lines E 1 ds) = min 12 (length rs)"
    using len by (simp add: length_render_lines)
  have ne: "render_lines E 1 ds \<noteq> []"
    using n assms(6) by (cases rs) auto
  have nth: "make_entry E la lo (rs ! i) = Inr (ds ! i)" if "i < min 12 (length rs)" for i
    using build_results_nth [OF assms(7)] that by simp
  have line: "render_lines E 1 ds ! i =
              str_int (int (Suc i)) @ ''. '' @ py_str E (name (ds ! i)) @ '' '' @
              [CHR 0xE2, CHR 0x80, CHR 0xA2] @ '' '' @ py_str E (rating (ds ! i)) @ '' '' @
              py_str E (reviews (ds ! i)) @ '' '' @ [CHR 0xE2, CHR 0x80, CHR 0xA2] @ '' '' @
              py_str E (PFloat (distance_km (ds ! i))) @ '' '' @ [CHR 0xE2, CHR 0x80, CHR 0xA2] @ '' '' @
              py_str E (open_now (ds ! i))"
    if "i < min 12 (length rs)" for i
    using render_lines_nth [of i ds E 1] that len
    by (simp add: format_line_def bullet_def)
  have res: "fst (find_doctors E specialty city lat lng radius_km) =
           Inr (Rendered (page specialty label (render_lines E 1 ds)))"
    using find_doctors_listing [OF assms] by simp
  have pg: "page specialty label (render_lines E 1 ds) =
             [CHR 0x0A] @ ''    Here are the top '' @
              (case specialty of None \<Rightarrow> ''doctors''
               | Some s \<Rightarrow> if s = [] then ''doctors'' else s) @
              '' near '' @ label @ '':'' @ [CHR 0x0A, CHR 0x0A] @ ''    '' @
              concat (map (\<lambda>l. l @ [CHR 0x0A]) (butlast (render_lines E 1 ds))) @
              last (render_lines E 1 ds) @ [CHR 0x0A, CHR 0x0A] @
              ''    Do you want directions, phone number, or another specialty?'' @
              [CHR 0x0A] @ ''    ''"
    unfolding page_def join_nl_concat [OF ne]
    by (cases specialty) (simp_all add: nl_def)
  show ?thesis
  proof (intro conjI allI impI)
    show "fst (find_doctors E specialty city lat lng radius_km) =
           Inr (Rendered
             ([CHR 0x0A] @ ''    Here are the top '' @
              (case specialty of None \<Rightarrow> ''doctors''
               | Some s \<Rightarrow> if s = [] then ''doctors'' else s) @
              '' near '' @ label @ '':'' @ [CHR 0x0A, CHR 0x0A] @ ''    '' @
              concat (map (\<lambda>l. l @ [CHR 0x0A]) (butlast (render_lines E 1 ds))) @
              last (render_lines E 1 ds) @ [CHR 0x0A, CHR 0x0A] @
              ''    Do you want directions, phone number, or another specialty?'' @
              [CHR 0x0A] @ ''    ''))"
      using res pg by (simp only:)
  next
    show "length (render_lines E 1 ds) = min 12 (length rs)" by (rule n)
  next
    fix i assume i: "i < min 12 (length rs)"
    show "make_entry E la lo (rs ! i) = Inr (ds ! i)" by (rule nth [OF i])
    show "py_get (rs ! i) ''name'' (PStr ''Unknown'') = Inr (name (ds ! i))"
      by (rule make_entry_fields(1) [OF nth [OF i]])
    show "py_get (rs ! i) ''rating'' (PStr ''No rating'') = Inr (rating (ds ! i))"
      by (rule make_entry_fields(2) [OF nth [OF i]])
    show "py_get (rs ! i) ''user_ratings_total'' (PInt 0) = Inr (reviews (ds ! i))"
      by (rule make_entry_fields(3) [OF nth [OF i]])
    show "render_lines E 1 ds ! i =
              str_int (int (Suc i)) @ ''. '' @ py_str E (name (ds ! i)) @ '' '' @
              [CHR 0xE2, CHR 0x80, CHR 0xA2] @ '' '' @ py_str E (rating (ds ! i)) @ '' '' @
              py_str E (reviews (ds ! i)) @ '' '' @ [CHR 0xE2, CHR 0x80, CHR 0xA2] @ '' '' @
              py_str E (PFloat (distance_km (ds ! i))) @ '' '' @ [CHR 0xE2, CHR 0x80, CHR 0xA2] @ '' '' @
              py_str E (open_now (ds ! i))"
      by (rule line [OF i])
  next
    assume "length rs = 20"
    then show "length (render_lines E 1 ds) = 12" using n by simp
  qed
qed

text \<open>The sample world answers with twenty places; the call returns the block with
  the twelve lines of the first twelve, numbered 1 to 12.\<close>

theorem first_twelve_in_order_witness:
  "fst (find_doctors sample_env (Some ''dentist'') (Some ''Bangalore'') None None 5) =
     Inr (Rendered
       ([CHR 0x0A] @ ''    Here are the top dentist near Bangalore:'' @ [CHR 0x0A, CHR 0x0A] @ ''    '' @
        ''1. Asha '' @ [CHR 0xE2, CHR 0x80, CHR 0xA2] @ '' No rating 7 '' @ [CHR 0xE2, CHR 0x80, CHR 0xA2] @
        '' 0.0 '' @ [CHR 0xE2, CHR 0x80, CHR 0xA2] @ '' None'' @ [CHR 0x0A] @
        ''2. Bala '' @ [CHR 0xE2, CHR 0x80, CHR 0xA2] @ '' No rating 7 '' @ [CHR 0xE2, CHR 0x80, CHR 0xA2] @
        '' 0.0 '' @ [CHR 0xE2, CHR 0x80, CHR 0xA2] @ '' None'' @ [CHR 0x0A] @
        ''3. Chitra '' @ [CHR 0xE2, CHR 0x80, CHR 0xA2] @ '' No rating 7 '' @ [CHR 0xE2, CHR 0x80, CHR 0xA2] @
        '' 0.0 '' @ [CHR 0xE2, CHR 0x80, CHR 0xA2] @ '' None'' @ [CHR 0x0A] @
        ''4. Dev '' @ [CHR 0xE2, CHR 0x80, CHR 0xA2] @ '' No rating 7 '' @ [CHR 0xE2, CHR 0x80, CHR 0xA2] @
        '' 0.0 '' @ [CHR 0xE2, CHR 0x80, CHR 0xA2] @ '' None'' @ [CHR 0x0A] @
        ''5. Esha '' @ [CHR 0xE2, CHR 0x80, CHR 0xA2] @ '' No rating 7 '' @ [CHR 0xE2, CHR 0x80, CHR 0xA2] @
        '' 0.0 '' @ [CHR 0xE2, CHR 0x80, CHR 0xA2] @ '' None'' @ [CHR 0x0A] @
        ''6. Farid '' @ [CHR 0xE2, CHR 0x80, CHR 0xA2] @ '' No rating 7 '' @ [CHR 0xE2, CHR 0x80, CHR 0xA2] @
        '' 0.0 '' @ [CHR 0xE2, CHR 0x80, CHR 0xA2] @ '' None'' @ [CHR 0x0A] @
        ''7. Gita '' @ [CHR 0xE2, CHR 0x80, CHR 0xA2] @ '' No rating 7 '' @ [CHR 0xE2, CHR 0x80, CHR 0xA2] @
        '' 0.0 '' @ [CHR 0xE2, CHR 0x80, CHR 0xA2] @ '' None'' @ [CHR 0x0A] @
        ''8. Hari '' @ [CHR 0xE2, CHR 0x80, CHR 0xA2] @ '' No rating 7 '' @ [CHR 0xE2, CHR 0x80, CHR 0xA2] @
        '' 0.0 '' @ [CHR 0xE2, CHR 0x80, CHR 0xA2] @ '' None'' @ [CHR 0x0A] @
        ''9. Indu '' @ [CHR 0xE2, CHR 0x80, CHR 0xA2] @ '' No rating 7 '' @ [CHR 0xE2, CHR 0x80, CHR 0xA2] @
        '' 0.0 '' @ [CHR 0xE2, CHR 0x80, CHR 0xA2] @ '' None'' @ [CHR 0x0A] @
        ''10. Jaya '' @ [CHR 0xE2, CHR 0x80, CHR 0xA2] @ '' No rating 7 '' @ [CHR 0xE2, CHR 0x80, CHR 0xA2] @
        '' 0.0 '' @ [CHR 0xE2, CHR 0x80, CHR 0xA2] @ '' None'' @ [CHR 0x0A] @
        ''11. Kiran '' @ [CHR 0xE2, CHR 0x80, CHR 0xA2] @ '' No rating 7 '' @ [CHR 0xE2, CHR 0x80, CHR 0xA2] @
        '' 0.0 '' @ [CHR 0xE2, CHR 0x80, CHR 0xA2] @ '' None'' @ [CHR 0x0A] @
        ''12. Lata '' @ [CHR 0xE2, CHR 0x80, CHR 0xA2] @ '' No rating 7 '' @ [CHR 0xE2, CHR 0x80, CHR 0xA2] @
        '' 0.0 '' @ [CHR 0xE2, CHR 0x80, CHR 0xA2] @ '' None'' @ [CHR 0x0A, CHR 0x0A] @
        ''    Do you want directions, phone number, or another specialty?'' @ [CHR 0x0A] @ ''    '')) \<and>
   length sample_places = 20 \<and>
   length (render_lines sample_env 1 (map sample_doctor
          [''Asha'', ''Bala'', ''Chitra'', ''Dev'', ''Esha'', ''Farid'', ''Gita'', ''Hari'', ''Indu'', ''Jaya'', ''Kiran'', ''Lata''])) = 12"
proof -
  let ?kvs = "[(''status'', PStr ''OK''), (''results'', PList sample_places)]"
  have a: "nearbysearch_api sample_env
             (search_params sample_env (Some ''dentist'') (PFloat 12.97) (PFloat 77.59) 5) =
           Returns (PDict ?kvs)"
    by (simp add: sample_env_def)
  have s1: "map_of ?kvs ''status'' \<noteq> Some (PStr ''REQUEST_DENIED'')" by simp
  have s2: "map_of ?kvs ''status'' \<noteq> Some (PStr ''OVER_QUERY_LIMIT'')" by simp
  have l: "length sample_places = 20" by (simp add: sample_places_def)
  then have ne: "sample_places \<noteq> []" by auto
  have n: "str_int 1 = ''1''" "str_int 2 = ''2''" "str_int 3 = ''3''" "str_int 4 = ''4''"
    "str_int 5 = ''5''" "str_int 6 = ''6''" "str_int 7 = ''7''" "str_int 8 = ''8''"
    "str_int 9 = ''9''" "str_int 10 = ''10''" "str_int 11 = ''11''" "str_int 12 = ''12''"
    by (simp_all add: str_int_def str_nat.simps digit_def)
  have r: "render_lines sample_env 1 (map sample_doctor
          [''Asha'', ''Bala'', ''Chitra'', ''Dev'', ''Esha'', ''Farid'', ''Gita'', ''Hari'', ''Indu'', ''Jaya'', ''Kiran'', ''Lata'']) =
      [''1. Asha '' @ [CHR 0xE2, CHR 0x80, CHR 0xA2] @ '' No rating 7 '' @ [CHR 0xE2, CHR 0x80, CHR 0xA2] @
        '' 0.0 '' @ [CHR 0xE2, CHR 0x80, CHR 0xA2] @ '' None'',
       ''2. Bala '' @ [CHR 0xE2, CHR 0x80, CHR 0xA2] @ '' No rating 7 '' @ [CHR 0xE2, CHR 0x80, CHR 0xA2] @
        '' 0.0 '' @ [CHR 0xE2, CHR 0x80, CHR 0xA2] @ '' None'',
       ''3. Chitra '' @ [CHR 0xE2, CHR 0x80, CHR 0xA2] @ '' No rating 7 '' @ [CHR 0xE2, CHR 0x80, CHR 0xA2] @
        '' 0.0 '' @ [CHR 0xE2, CHR 0x80, CHR 0xA2] @ '' None'',
       ''4. Dev '' @ [CHR 0xE2, CHR 0x80, CHR 0xA2] @ '' No rating 7 '' @ [CHR 0xE2, CHR 0x80, CHR 0xA2] @
        '' 0.0 '' @ [CHR 0xE2, CHR 0x80, CHR 0xA2] @ '' None'',
       ''5. Esha '' @ [CHR 0xE2, CHR 0x80, CHR 0xA2] @ '' No rating 7 '' @ [CHR 0xE2, CHR 0x80, CHR 0xA2] @
        '' 0.0 '' @ [CHR 0xE2, CHR 0x80, CHR 0xA2] @ '' None'',
       ''6. Farid '' @ [CHR 0xE2, CHR 0x80, CHR 0xA2] @ '' No rating 7 '' @ [CHR 0xE2, CHR 0x80, CHR 0xA2] @
        '' 0.0 '' @ [CHR 0xE2, CHR 0x80, CHR 0xA2] @ '' None'',
       ''7. Gita '' @ [CHR 0xE2, CHR 0x80, CHR 0xA2] @ '' No rating 7 '' @ [CHR 0xE2, CHR 0x80, CHR 0xA2] @
        '' 0.0 '' @ [CHR 0xE2, CHR 0x80, CHR 0xA2] @ '' None'',
       ''8. Hari '' @ [CHR 0xE2, CHR 0x80, CHR 0xA2] @ '' No rating 7 '' @ [CHR 0xE2, CHR 0x80, CHR 0xA2] @
        '' 0.0 '' @ [CHR 0xE2, CHR 0x80, CHR 0xA2] @ '' None'',
       ''9. Indu '' @ [CHR 0xE2, CHR 0x80, CHR 0xA2] @ '' No rating 7 '' @ [CHR 0xE2, CHR 0x80, CHR 0xA2] @
        '' 0.0 '' @ [CHR 0xE2, CHR 0x80, CHR 0xA2] @ '' None'',
       ''10. Jaya '' @ [CHR 0xE2, CHR 0x80, CHR 0xA2] @ '' No rating 7 '' @ [CHR 0xE2, CHR 0x80, CHR 0xA2] @
        '' 0.0 '' @ [CHR 0xE2, CHR 0x80, CHR 0xA2] @ '' None'',
       ''11. Kiran '' @ [CHR 0xE2, CHR 0x80, CHR 0xA2] @ '' No rating 7 '' @ [CHR 0xE2, CHR 0x80, CHR 0xA2] @
        '' 0.0 '' @ [CHR 0xE2, CHR 0x80, CHR 0xA2] @ '' None'',
       ''12. Lata '' @ [CHR 0xE2, CHR 0x80, CHR 0xA2] @ '' No rating 7 '' @ [CHR 0xE2, CHR 0x80, CHR 0xA2] @
        '' 0.0 '' @ [CHR 0xE2, CHR 0x80, CHR 0xA2] @ '' None'']"
    by (simp add: format_line_def sample_doctor_def sample_env_def sample_repr_def bullet_def n)
  show ?thesis
    using first_twelve_in_order [OF sample_resolve a s1 s2 sample_places_results ne sample_build] l
    unfolding r by simp
qed

section \<open>The distance between near-antipodal points (C7)\<close>

text \<open>
  C7 says that \<^verbatim>\<open>haversine_km\<close> is zero on the diagonal and that for all coordinate
  pairs the distance from A to B equals the distance from B to A. In doubles the
  sum \<open>a\<close> of source line 22 can round above 1, and then \<^verbatim>\<open>sqrt(1 - a)\<close> of line 23
  raises \<open>ValueError\<close>: there is no clamp of \<open>a\<close>. Between the points (-87.5, 0.0) and
  (87.5, 180.0), both in range, \<open>a\<close> is 1.0000000000000002 in IEEE arithmetic, and the
  function raises in both orders instead of returning two equal distances.
\<close>

theorem haversine_raises_near_antipodes:
  "haversine_km ieee_sample_ops (PFloat (- 87.5)) (PFloat 0) (PFloat 87.5) (PFloat 180) =
     Inl ValueError \<and>
   haversine_km ieee_sample_ops (PFloat 87.5) (PFloat 180) (PFloat (- 87.5)) (PFloat 0) =
     Inl ValueError"
  by (simp add: haversine_km_def py_sub_def radians_def ieee_sample_ops_def exact_ops_def)

section \<open>Denial and quota (C8)\<close>

text \<open>
  C8: when a call makes the nearby search and the answer is a dict of status
  \<open>REQUEST_DENIED\<close>, the call returns the error dictionary with the text
  \<open>Google Places API not enabled or billing inactive.\<close>; of status \<open>OVER_QUERY_LIMIT\<close>,
  with the text \<open>API quota exceeded.\<close>. Nothing is rendered in either case.
\<close>

theorem denied_and_quota_errors:
  assumes "NearbySearch p \<in> set (snd (find_doctors E specialty city lat lng radius_km))"
    and "nearbysearch_api E p = Returns (PDict kvs)"
  shows "(map_of kvs ''status'' = Some (PStr ''REQUEST_DENIED'') \<longrightarrow>
            fst (find_doctors E specialty city lat lng radius_km) =
              Inr (ErrorDict ''Google Places API not enabled or billing inactive.'')) \<and>
         (map_of kvs ''status'' = Some (PStr ''OVER_QUERY_LIMIT'') \<longrightarrow>
            fst (find_doctors E specialty city lat lng radius_km) =
              Inr (ErrorDict ''API quota exceeded.''))"
proof -
  from nearby_in_trace [OF assms(1)] obtain la lo label tr where
    r: "resolve_location E city lat lng = (Go (la, lo, label), tr)" and
    p: "p = search_params E specialty la lo radius_km" by blast
  show ?thesis
    using r assms(2) unfolding p
    by (simp add: find_doctors_def handle_response_def Let_def)
qed

text \<open>The sample world with a nearby search that answers with each of the two statuses.\<close>

theorem denied_and_quota_errors_witness:
  "fst (find_doctors
          (sample_env\<lparr>nearbysearch_api := \<lambda>p. Returns (PDict [(''status'', PStr ''REQUEST_DENIED'')])\<rparr>)
          (Some ''dentist'') None (Some 12.97) (Some 77.59) 5) =
     Inr (ErrorDict ''Google Places API not enabled or billing inactive.'') \<and>
   fst (find_doctors
          (sample_env\<lparr>nearbysearch_api := \<lambda>p. Returns (PDict [(''status'', PStr ''OVER_QUERY_LIMIT'')])\<rparr>)
          (Some ''dentist'') None (Some 12.97) (Some 77.59) 5) =
     Inr (ErrorDict ''API quota exceeded.'')"
proof -
  let ?p = "\<lparr>location = ''12.97,77.59'', radius = 5000, keyword = ''dentist'', key = ''k''\<rparr>"
  let ?D = "sample_env\<lparr>nearbysearch_api := \<lambda>p. Returns (PDict [(''status'', PStr ''REQUEST_DENIED'')])\<rparr>"
  let ?Q = "sample_env\<lparr>nearbysearch_api := \<lambda>p. Returns (PDict [(''status'', PStr ''OVER_QUERY_LIMIT'')])\<rparr>"
  have d: "NearbySearch ?p \<in> set (snd (find_doctors ?D (Some ''dentist'') None (Some 12.97) (Some 77.59) 5))"
    by (simp add: find_doctors_def resolve_explicit search_params_def sample_keyword
        sample_env_def sample_repr_def Let_def)
  have q: "NearbySearch ?p \<in> set (snd (find_doctors ?Q (Some ''dentist'') None (Some 12.97) (Some 77.59) 5))"
    by (simp add: find_doctors_def resolve_explicit search_params_def sample_keyword
        sample_env_def sample_repr_def Let_def)
  have d': "nearbysearch_api ?D ?p = Returns (PDict [(''status'', PStr ''REQUEST_DENIED'')])"
    by simp
  have q': "nearbysearch_api ?Q ?p = Returns (PDict [(''status'', PStr ''OVER_QUERY_LIMIT'')])"
    by simp
  show ?thesis
    using denied_and_quota_errors [OF d d'] denied_and_quota_errors [OF q q'] by simp
qed

section \<open>No results (C9)\<close>

text \<open>
  C9: when the location is resolved with the label \<open>label\<close>, the answer of the nearby
  search is a dict of another status and the capped result list is empty, the call
  returns the error dictionary \<open>No doctors found within {radius_km} km of {label}.\<close>
  with the requested radius, not the capped one.
\<close>

theorem no_results_error:
  assumes "resolve_location E city lat lng = (Go (la, lo, label), tr)"
    and "nearbysearch_api E (search_params E specialty la lo radius_km) = Returns (PDict kvs)"
    and "map_of kvs ''status'' \<noteq> Some (PStr ''REQUEST_DENIED'')"
    and "map_of kvs ''status'' \<noteq> Some (PStr ''OVER_QUERY_LIMIT'')"
    and "slice12 (case map_of kvs ''results'' of None \<Rightarrow> PList [] | Some v \<Rightarrow> v) = Inr places"
    and "\<not> truthy places"
  shows "fst (find_doctors E specialty city lat lng radius_km) =
           Inr (ErrorDict (''No doctors found within '' @ str_int radius_km @ '' km of '' @
                           label @ ''.''))"
  using assms
  by (auto simp: find_doctors_def handle_response_def Let_def split: option.splits)

text \<open>With \<open>radius_km = 200\<close> and the city \<open>Bangalore\<close> the text names 200 km.\<close>

theorem no_results_error_witness:
  "fst (find_doctors
          (sample_env\<lparr>nearbysearch_api := \<lambda>p. Returns (PDict [(''status'', PStr ''ZERO_RESULTS''),
                          (''results'', PList [])])\<rparr>)
          (Some ''dentist'') (Some ''Bangalore'') None None 200) =
     Inr (ErrorDict ''No doctors found within 200 km of Bangalore.'')"
proof -
  let ?kvs = "[(''status'', PStr ''ZERO_RESULTS''), (''results'', PList [])]"
  let ?E = "sample_env\<lparr>nearbysearch_api := \<lambda>p. Returns (PDict ?kvs)\<rparr>"
  have r: "resolve_location ?E (Some ''Bangalore'') None None =
             (Go (PFloat 12.97, PFloat 77.59, ''Bangalore''), [Geocode ''Bangalore'' ''k''])"
    by (simp add: resolve_location_def geocode_city_def sample_env_def)
  have a: "nearbysearch_api ?E (search_params ?E (Some ''dentist'') (PFloat 12.97) (PFloat 77.59) 200) =
             Returns (PDict ?kvs)"
    by simp
  have s1: "map_of ?kvs ''status'' \<noteq> Some (PStr ''REQUEST_DENIED'')" by simp
  have s2: "map_of ?kvs ''status'' \<noteq> Some (PStr ''OVER_QUERY_LIMIT'')" by simp
  have c: "slice12 (case map_of ?kvs ''results'' of None \<Rightarrow> PList [] | Some v \<Rightarrow> v) = Inr (PList [])"
    by simp
  have e: "\<not> truthy (PList [])" by simp
  have n: "str_int 200 = ''200''"
    by (simp add: str_int_def str_nat.simps digit_def)
  show ?thesis
    using no_results_error [OF r a s1 s2 c e] n by simp
qed

section \<open>A place without a rating (C10)\<close>

text \<open>
  C10: when entry \<open>i\<close> of the result list, one of the first twelve, is a dict with no
  key \<open>rating\<close>, the rating of the entry built from it is the string \<open>No rating\<close>, and
  line \<open>i\<close> of the returned listing has that string in the rating position, between the
  first bullet and the review count.
\<close>

theorem missing_rating_text:
  assumes "resolve_location E city lat lng = (Go (la, lo, label), tr)"
    and "nearbysearch_api E (search_params E specialty la lo radius_km) = Returns (PDict kvs)"
    and "map_of kvs ''status'' \<noteq> Some (PStr ''REQUEST_DENIED'')"
    and "map_of kvs ''status'' \<noteq> Some (PStr ''OVER_QUERY_LIMIT'')"
    and "map_of kvs ''results'' = Some (PList rs)"
    and "build_results E la lo (take 12 rs) = Inr ds"
    and "i < length rs" and "i < 12"
    and "rs ! i = PDict pkvs" and "map_of pkvs ''rating'' = None"
  shows "rating (ds ! i) = PStr ''No rating'' \<and>
         fst (find_doctors E specialty city lat lng radius_km) =
           Inr (Rendered (page specialty label (render_lines E 1 ds))) \<and>
         render_lines E 1 ds ! i =
           str_int (int (Suc i)) @ ''. '' @ py_str E (name (ds ! i)) @ '' '' @ bullet @ '' '' @
           ''No rating'' @ '' '' @ py_str E (reviews (ds ! i)) @ '' '' @ bullet @ '' '' @
           py_str E (PFloat (distance_km (ds ! i))) @ '' '' @ bullet @ '' '' @
           py_str E (open_now (ds ! i))"
proof -
  have ne: "rs \<noteq> []" using assms(7) by auto
  have i: "i < length (take 12 rs)" using assms(7,8) by simp
  from build_results_nth [OF assms(6)] i
  have len: "length ds = length (take 12 rs)" and e: "make_entry E la lo (rs ! i) = Inr (ds ! i)"
    by auto
  have r: "rating (ds ! i) = PStr ''No rating''"
    using make_entry_no_rating [of E la lo pkvs "ds ! i"] e assms(9,10) by simp
  have line: "render_lines E 1 ds ! i = format_line E (Suc i) (ds ! i)"
    using render_lines_nth [of i ds E 1] i len by simp
  show ?thesis
    using r line find_doctors_listing [OF assms(1-5) ne assms(6)]
    by (simp add: format_line_def)
qed

text \<open>The first sample place has no rating; its line reads \<open>No rating\<close>.\<close>

theorem missing_rating_text_witness:
  "sample_places ! 0 = sample_place ''Asha'' \<and>
   map_of [(''name'', PStr ''Asha''), (''user_ratings_total'', PInt 7),
           (''geometry'', PDict [(''location'',
               PDict [(''lat'', PFloat 12.97), (''lng'', PFloat 77.59)])])] ''rating'' = None \<and>
   render_lines sample_env 1 (map sample_doctor
          [''Asha'', ''Bala'', ''Chitra'', ''Dev'', ''Esha'', ''Farid'', ''Gita'', ''Hari'', ''Indu'', ''Jaya'', ''Kiran'', ''Lata'']) ! 0 =
     ''1. Asha '' @ bullet @ '' No rating 7 '' @ bullet @ '' 0.0 '' @ bullet @ '' None''"
proof -
  let ?kvs = "[(''status'', PStr ''OK''), (''results'', PList sample_places)]"
  let ?pkvs = "[(''name'', PStr ''Asha''), (''user_ratings_total'', PInt 7),
           (''geometry'', PDict [(''location'',
               PDict [(''lat'', PFloat 12.97), (''lng'', PFloat 77.59)])])]"
  have a: "nearbysearch_api sample_env
             (search_params sample_env (Some ''dentist'') (PFloat 12.97) (PFloat 77.59) 5) =
           Returns (PDict ?kvs)"
    by (simp add: sample_env_def)
  have s1: "map_of ?kvs ''status'' \<noteq> Some (PStr ''REQUEST_DENIED'')" by simp
  have s2: "map_of ?kvs ''status'' \<noteq> Some (PStr ''OVER_QUERY_LIMIT'')" by simp
  have i: "0 < length sample_places" by (simp add: sample_places_def)
  have i': "(0::nat) < 12" by simp
  have p: "sample_places ! 0 = PDict ?pkvs" by (simp add: sample_places_def sample_place_def)
  have q: "map_of ?pkvs ''rating'' = None" by simp
  have n: "str_int 1 = ''1''" "str_int 7 = ''7''"
    by (simp_all add: str_int_def str_nat.simps digit_def)
  show ?thesis
    using missing_rating_text [OF sample_resolve a s1 s2 sample_places_results sample_build i i' p q]
      p q n
    by (simp add: sample_place_def sample_doctor_def sample_env_def sample_repr_def)
qed

end
